theory Spec2Isabelle
  imports Main
begin

section \<open>The snapshot tree of a virtual machine\<close>

text \<open>
  A node of the vendor's snapshot tree (\<open>vim.vm.SnapshotTree\<close>), with the four
  attributes \<open>vm_snapshot.py\<close> reads: \<open>id\<close>, \<open>name\<close>, \<open>snapshot\<close> (the managed
  snapshot object the node stands for, here its reference) and \<open>childSnapshotList\<close>.
  The selectors of \<open>id\<close>, \<open>name\<close> and \<open>snapshot\<close> carry the prefix \<open>st_\<close>.
\<close>

type_synonym snapshot_ref = nat

datatype snapshot_tree =
  SnapshotTree (st_id: int) (st_name: string) (st_snapshot: snapshot_ref)
    (childSnapshotList: "snapshot_tree list")

subsection \<open>The two recursive searches\<close>

text \<open>
  \<^verbatim>\<open>
  def get_snapshots_by_name_recursively(self, snapshots, snapname):
      snap_obj = []
      for snapshot in snapshots:
          if snapshot.name == snapname:
              snap_obj.append(snapshot)
          else:
              snap_obj = snap_obj + self.get_snapshots_by_name_recursively(
                  snapshot.childSnapshotList, snapname)
      return snap_obj
  \<close>
  The loop appends, per element and in order, either the element itself or the result
  of the recursive call on its children; the model concatenates these contributions.
\<close>

fun get_snapshots_by_name_recursively :: "snapshot_tree list \<Rightarrow> string \<Rightarrow> snapshot_tree list" where
  "get_snapshots_by_name_recursively [] snapname = []"
| "get_snapshots_by_name_recursively (SnapshotTree i n r cs # snapshots) snapname =
     (if n = snapname then [SnapshotTree i n r cs]
      else get_snapshots_by_name_recursively cs snapname)
     @ get_snapshots_by_name_recursively snapshots snapname"

fun get_snapshots_by_id_recursively :: "snapshot_tree list \<Rightarrow> int \<Rightarrow> snapshot_tree list" where
  "get_snapshots_by_id_recursively [] snapid = []"
| "get_snapshots_by_id_recursively (SnapshotTree i n r cs # snapshots) snapid =
     (if i = snapid then [SnapshotTree i n r cs]
      else get_snapshots_by_id_recursively cs snapid)
     @ get_snapshots_by_id_recursively snapshots snapid"

subsection \<open>Nodes of a tree, for stating what a search returns\<close>

text \<open>
  \<open>all_nodes\<close> lists every node of a forest at any depth, in pre-order.
  \<open>nodes_with_ancestors\<close> lists them in the same order, each with the chain of its
  proper ancestors (outermost first).
\<close>

fun all_nodes :: "snapshot_tree list \<Rightarrow> snapshot_tree list" where
  "all_nodes [] = []"
| "all_nodes (SnapshotTree i n r cs # ts) =
     SnapshotTree i n r cs # all_nodes cs @ all_nodes ts"

fun nodes_with_ancestors ::
  "snapshot_tree list \<Rightarrow> snapshot_tree list \<Rightarrow> (snapshot_tree list \<times> snapshot_tree) list" where
  "nodes_with_ancestors anc [] = []"
| "nodes_with_ancestors anc (SnapshotTree i n r cs # ts) =
     (anc, SnapshotTree i n r cs)
     # nodes_with_ancestors (anc @ [SnapshotTree i n r cs]) cs
     @ nodes_with_ancestors anc ts"

text \<open>A node is an outermost match of a key when it matches and no proper ancestor does.\<close>

definition outermost_name :: "string \<Rightarrow> snapshot_tree list \<times> snapshot_tree \<Rightarrow> bool" where
  "outermost_name snapname p = (st_name (snd p) = snapname \<and> snapname \<notin> st_name ` set (fst p))"

definition outermost_id :: "int \<Rightarrow> snapshot_tree list \<times> snapshot_tree \<Rightarrow> bool" where
  "outermost_id snapid p = (st_id (snd p) = snapid \<and> snapid \<notin> st_id ` set (fst p))"

subsection \<open>The traversal the two searches share\<close>

text \<open>
  The search with the test left open: \<open>search_by\<close> is the loop of either function
  with \<open>matches\<close> in place of the comparison, and \<open>tested_by\<close> lists the nodes the
  loop applies the test to, in the order it reaches them (a node, then its children
  unless it matched, then its later siblings).
\<close>

fun search_by :: "(snapshot_tree \<Rightarrow> bool) \<Rightarrow> snapshot_tree list \<Rightarrow> snapshot_tree list" where
  "search_by matches [] = []"
| "search_by matches (SnapshotTree i n r cs # snapshots) =
     (if matches (SnapshotTree i n r cs) then [SnapshotTree i n r cs]
      else search_by matches cs)
     @ search_by matches snapshots"

fun tested_by :: "(snapshot_tree \<Rightarrow> bool) \<Rightarrow> snapshot_tree list \<Rightarrow> snapshot_tree list" where
  "tested_by matches [] = []"
| "tested_by matches (SnapshotTree i n r cs # snapshots) =
     SnapshotTree i n r cs
     # (if matches (SnapshotTree i n r cs) then [] else tested_by matches cs)
     @ tested_by matches snapshots"

section \<open>Python values and text\<close>

text \<open>
  Python's truth test on an optional string (\<open>None\<close> and the empty string are false) and
  on an optional integer (\<open>None\<close> and \<open>0\<close> are false), \<open>a or b\<close> on optional strings,
  and \<open>str\<close> as the \<open>%s\<close> conversion applies it.
\<close>

definition truthy_str :: "string option \<Rightarrow> bool" where
  "truthy_str v = (case v of None \<Rightarrow> False | Some t \<Rightarrow> t \<noteq> [])"

definition truthy_int :: "int option \<Rightarrow> bool" where
  "truthy_int v = (case v of None \<Rightarrow> False | Some i \<Rightarrow> i \<noteq> 0)"

definition truthy_bool :: "bool option \<Rightarrow> bool" where
  "truthy_bool v = (case v of None \<Rightarrow> False | Some b \<Rightarrow> b)"

definition py_or :: "string option \<Rightarrow> string option \<Rightarrow> string option" where
  "py_or a b = (if truthy_str a then a else b)"

definition digit_char :: "nat \<Rightarrow> char" where
  "digit_char d = ''0123456789'' ! (d mod 10)"

function str_nat :: "nat \<Rightarrow> string" where
  "str_nat n = (if n < 10 then [digit_char n] else str_nat (n div 10) @ [digit_char (n mod 10)])"
  by pat_completeness auto
termination
  by (relation "measure (\<lambda>n. n)") auto

definition str_int :: "int \<Rightarrow> string" where
  "str_int i = (if i < 0 then CHR ''-'' # str_nat (nat (- i)) else str_nat (nat i))"

definition str_opt :: "string option \<Rightarrow> string" where
  "str_opt v = (case v of None \<Rightarrow> ''None'' | Some t \<Rightarrow> t)"

text \<open>
  The exceptions of the two files: the client's own \<open>ApiAccessError\<close>, and the
  built-in ones Python raises by itself in the code modelled here.
\<close>

datatype exn =
    ApiAccessError string
  | TypeError string
  | ValueError string
  | AttributeError string
  | IndexError string

text \<open>
  \<open>fmt % args\<close> for a format that uses the conversions \<open>%s\<close> and \<open>%%\<close>; \<open>args\<close>
  are the arguments, each already converted by \<open>str\<close>. A right operand that is not a
  tuple is the one-element list. Too few arguments and arguments left over raise
  \<open>TypeError\<close>, as in Python.
\<close>

definition prepend :: "char \<Rightarrow> exn + string \<Rightarrow> exn + string" where
  "prepend c r = (case r of Inl e \<Rightarrow> Inl e | Inr t \<Rightarrow> Inr (c # t))"

fun py_format :: "string \<Rightarrow> string list \<Rightarrow> exn + string" where
  "py_format [] [] = Inr []"
| "py_format [] (a # args) = Inl (TypeError ''not all arguments converted during string formatting'')"
| "py_format (c # d # cs) args =
     (if c = CHR ''%'' then
        (if d = CHR ''s'' then
           (case args of
              [] \<Rightarrow> Inl (TypeError ''not enough arguments for format string'')
            | a # rest \<Rightarrow> (case py_format cs rest of Inl e \<Rightarrow> Inl e | Inr t \<Rightarrow> Inr (a @ t)))
         else if d = CHR ''%'' then prepend CHR ''%'' (py_format cs args)
         else Inl (ValueError ''unsupported format character''))
      else prepend c (py_format (d # cs) args))"
| "py_format [c] args =
     (if c = CHR ''%'' then Inl (ValueError ''incomplete format'')
      else prepend c (py_format [] args))"

section \<open>The snapshot module (\<open>vm_snapshot.py\<close>)\<close>

subsection \<open>Parameters, the virtual machine, the vendor\<close>

text \<open>
  \<open>module.params\<close>, with the keys the class reads. The argument specification admits
  five states only, so the state is a datatype. A key the caller did not supply is
  \<open>None\<close>.
\<close>

datatype state = Present | Absent | Rename | Revert | Remove_all

definition state_text :: "state \<Rightarrow> string" where
  "state_text st = (case st of Present \<Rightarrow> ''present'' | Absent \<Rightarrow> ''absent''
     | Rename \<Rightarrow> ''rename'' | Revert \<Rightarrow> ''revert'' | Remove_all \<Rightarrow> ''remove_all'')"

record params =
  state :: state
  name :: "string option"
  uuid :: "string option"
  moid :: "string option"
  snapshot_name :: "string option"
  snapshot_id :: "int option"
  description :: string
  quiesce :: bool
  memory_dump :: bool
  remove_children :: bool
  new_snapshot_name :: "string option"
  new_description :: "string option"

text \<open>
  What the code reads of a \<open>vim.VirtualMachine\<close>: \<open>vm.snapshot\<close> (\<open>None\<close> when the
  machine has no snapshot, else an object with \<open>rootSnapshotList\<close>) and the two
  capability flags.
\<close>

record snapshot_info =
  rootSnapshotList :: "snapshot_tree list"

record vm_capability =
  memorySnapshotsSupported :: bool
  quiescedSnapshotsSupported :: bool

record virtual_machine =
  snapshot :: "snapshot_info option"
  capability :: vm_capability

text \<open>
  The vendor's side is a parameter of the model: what each call on the machine or on
  the resolved snapshot object answers (a task handle, \<open>None\<close>, or an exception), what
  the task monitor answers for a task, and the projection \<open>list_snapshots\<close> returns.
  An exception carries the text \<open>to_text\<close>/\<open>to_native\<close> gives for it;
  \<open>RestrictedVersion\<close> carries its \<open>msg\<close> first.
\<close>

type_synonym task = nat

datatype vendor_call =
    CreateSnapshot "string option" string bool bool
  | RenameSnapshot snapshot_ref "string option" "string option"
  | RemoveSnapshot_Task snapshot_ref bool
  | RevertToSnapshot_Task snapshot_ref
  | RemoveAllSnapshots

datatype response =
    Returned "task option"
  | Raised_RestrictedVersion string string
  | Raised_Exception string

datatype wait_response = Completed | Raised_TaskError string

record 'r vendor =
  respond :: "vendor_call \<Rightarrow> response"
  wait_for_completion :: "task \<Rightarrow> wait_response"
  list_snapshots :: 'r

datatype event = Vendor_call vendor_call | Wait task | List_snapshots

subsection \<open>The module object and how an invocation ends\<close>

record 'r result =
  changed :: bool
  renamed :: bool
  snapshot_results :: "'r option"

record 'r self =
  vm :: virtual_machine
  vm_id :: "string option"
  snap_object :: "snapshot_ref option"
  result :: "'r result"

text \<open>
  \<open>exit_json\<close> and \<open>fail_json\<close> leave the process (\<open>SystemExit\<close>, which
  \<open>except Exception\<close> does not catch); an exception nobody catches ends it too.
\<close>

datatype 'r outcome =
    Exit_result "'r result"
  | Exit_msg bool string
  | Fail_json string
  | Uncaught exn

text \<open>What \<open>get_vm_using_params(fail_on_missing=True)\<close> does: fail, or return a list.\<close>

datatype vm_lookup = Lookup_failed string | Lookup_returned "virtual_machine option list"

subsection \<open>Resolution of the target snapshot\<close>

text \<open>
  \<^verbatim>\<open>
  def get_snapshots_recursively(self):
      if self.module.params["snapshot_name"]:
          return self.get_snapshots_by_name_recursively(
              self.vm.snapshot.rootSnapshotList, self.module.params["snapshot_name"])
      elif self.module.params["snapshot_id"] and self.module.params["state"] in ['absent', 'revert']:
          return self.get_snapshots_by_id_recursively(
              self.vm.snapshot.rootSnapshotList, self.module.params["snapshot_id"])
  \<close>
  With neither branch taken the function ends without \<open>return\<close>: the value is
  \<open>None\<close>.
\<close>

definition get_snapshots_recursively :: "params \<Rightarrow> snapshot_info \<Rightarrow> snapshot_tree list option" where
  "get_snapshots_recursively p info =
     (if truthy_str (snapshot_name p) then
        Some (get_snapshots_by_name_recursively (rootSnapshotList info) (the (snapshot_name p)))
      else if truthy_int (snapshot_id p) \<and> (state p = Absent \<or> state p = Revert) then
        Some (get_snapshots_by_id_recursively (rootSnapshotList info) (the (snapshot_id p)))
      else None)"

text \<open>
  Lines 285 to 292 of the constructor, on the machine \<open>self.vm\<close> holds at that point:
  \<^verbatim>\<open>
  if self.vm.snapshot is None:
      self.snap_object = None
  else:
      self.snap_object = self.get_snapshots_recursively()
      if len(self.snap_object) == 1:
          self.snap_object = self.snap_object[0].snapshot
      else:
          self.snap_object = None
  \<close>
  \<open>len(None)\<close> raises \<open>TypeError\<close>.
\<close>

definition no_len :: string where
  "no_len = ''object of type '' @ [CHR 0x27] @ ''NoneType'' @ [CHR 0x27] @ '' has no len()''"

definition disambiguate :: "snapshot_tree list option \<Rightarrow> exn + snapshot_ref option" where
  "disambiguate found =
     (case found of
        None \<Rightarrow> Inl (TypeError no_len)
      | Some matches \<Rightarrow>
          Inr (if length matches = 1 then Some (st_snapshot (matches ! 0)) else None))"

definition resolve :: "params \<Rightarrow> virtual_machine \<Rightarrow> exn + snapshot_ref option" where
  "resolve p machine =
     (case snapshot machine of
        None \<Rightarrow> Inr None
      | Some info \<Rightarrow> disambiguate (get_snapshots_recursively p info))"

subsection \<open>The constructor\<close>

text \<open>
  \<^verbatim>\<open>
  def __init__(self, module):
      super(ModulePyvmomiBase, self).__init__(module)
      self.result = dict(changed=False, renamed=False)
      if self.vm.snapshot is None: ...            # lines 285 to 292, see resolve
      vm_list = self.get_vm_using_params(fail_on_missing=True)
      self.vm = vm_list[0]
      self.vm_id = self.module.params.get('uuid') or self.module.params.get('name')
          or self.module.params.get('moid')
      if not self.vm:
          module.fail_json(msg="Unable to manage snapshots for non-existing VM %s" % self.vm_id)
      if not (module.params['snapshot_name'] or module.params['snapshot_id'])
              and module.params['state'] != 'remove_all':
          module.fail_json(msg="snapshot_name param required when state is '%(state)s'" % module.params)
  \<close>
  \<open>ModulePyvmomiBase\<close> is not among the sources, so what \<open>self.vm\<close> holds when line 285
  reads it is the parameter \<open>held\<close>: \<open>None\<close> when the attribute is unset or is \<open>None\<close>
  (reading \<open>.snapshot\<close> then raises \<open>AttributeError\<close>). The answer of
  \<open>get_vm_using_params\<close> is the parameter \<open>lookup\<close>.
\<close>

definition quote_char :: char where
  "quote_char = CHR 0x27"

definition init :: "params \<Rightarrow> virtual_machine option \<Rightarrow> vm_lookup \<Rightarrow> 'r outcome + 'r self" where
  "init p held lookup =
     (case held of
        None \<Rightarrow> Inl (Uncaught (AttributeError ''vm''))
      | Some machine \<Rightarrow>
          (case resolve p machine of
             Inl e \<Rightarrow> Inl (Uncaught e)
           | Inr target \<Rightarrow>
               (case lookup of
                  Lookup_failed m \<Rightarrow> Inl (Fail_json m)
                | Lookup_returned [] \<Rightarrow> Inl (Uncaught (IndexError ''list index out of range''))
                | Lookup_returned (first # others) \<Rightarrow>
                    (let ident = py_or (py_or (uuid p) (name p)) (moid p) in
                     case first of
                       None \<Rightarrow>
                         Inl (Fail_json (''Unable to manage snapshots for non-existing VM ''
                                @ str_opt ident))
                     | Some found \<Rightarrow>
                         if \<not> (truthy_str (snapshot_name p) \<or> truthy_int (snapshot_id p))
                            \<and> state p \<noteq> Remove_all
                         then Inl (Fail_json (''snapshot_name param required when state is ''
                                @ [quote_char] @ state_text (state p) @ [quote_char]))
                         else Inr \<lparr>vm = found, vm_id = ident, snap_object = target,
                                   result = \<lparr>changed = False, renamed = False,
                                              snapshot_results = None\<rparr>\<rparr>))))"

subsection \<open>The operations\<close>

text \<open>
  How a call through the dispatch table ends: it returns a task handle or \<open>None\<close>
  (with the module object as it left it), it leaves the process, or it raises an
  exception, which \<open>apply_snapshot_op\<close> catches.
\<close>

datatype 'r dispatched =
    Task "task option" "'r self"
  | Exited "'r outcome"
  | Threw string

definition vendor_task :: "'r vendor \<Rightarrow> vendor_call \<Rightarrow> 'r self \<Rightarrow> event list \<times> 'r dispatched" where
  "vendor_task vnd c s =
     (case respond vnd c of
        Returned t \<Rightarrow> ([Vendor_call c], Task t s)
      | Raised_RestrictedVersion m txt \<Rightarrow> ([Vendor_call c], Threw txt)
      | Raised_Exception txt \<Rightarrow> ([Vendor_call c], Threw txt))"

text \<open>
  \<^verbatim>\<open>
  def snapshot_vm(self):
      if self.snap_object:
          self.module.exit_json(changed=False,
                                msg="Snapshot named [%(snapshot_name)s] already exists" % self.module.params)
      memory_dump = self.module.params['memory_dump'] and self.vm.capability.memorySnapshotsSupported
      quiesce = self.module.params['quiesce'] and self.vm.capability.quiescedSnapshotsSupported
      try:
          return self.vm.CreateSnapshot(self.module.params["snapshot_name"],
                                        self.module.params["description"], memory_dump, quiesce)
      except vim.fault.RestrictedVersion as e:
          self.module.fail_json(msg="Failed to take snapshot due to VMware Licence"
                                    " restriction : %s" % to_native(e.msg))
      except Exception as e:
          self.module.fail_json(msg="Failed to create snapshot of virtual machine"
                                    " %s due to %s" % (self.module.params['name'], to_native(e)))
  \<close>
\<close>

definition snapshot_vm :: "'r vendor \<Rightarrow> params \<Rightarrow> 'r self \<Rightarrow> event list \<times> 'r dispatched" where
  "snapshot_vm vnd p s =
     (if snap_object s \<noteq> None then
        ([], Exited (Exit_msg False
               (''Snapshot named ['' @ str_opt (snapshot_name p) @ ''] already exists'')))
      else
        (let dump = (memory_dump p \<and> memorySnapshotsSupported (capability (vm s)));
             quiet = (quiesce p \<and> quiescedSnapshotsSupported (capability (vm s)));
             c = CreateSnapshot (snapshot_name p) (description p) dump quiet
         in case respond vnd c of
              Returned t \<Rightarrow> ([Vendor_call c], Task t s)
            | Raised_RestrictedVersion m txt \<Rightarrow>
                ([Vendor_call c], Exited (Fail_json
                   (''Failed to take snapshot due to VMware Licence restriction : '' @ m)))
            | Raised_Exception txt \<Rightarrow>
                ([Vendor_call c], Exited (Fail_json
                   (''Failed to create snapshot of virtual machine '' @ str_opt (name p)
                    @ '' due to '' @ txt)))))"

text \<open>
  \<^verbatim>\<open>
  def rename_snapshot(self):
      if self.module.params["new_snapshot_name"] and self.module.params["new_description"]:
          task = self.snap_object.RenameSnapshot(name=self.module.params["new_snapshot_name"],
                                                 description=self.module.params["new_description"])
      elif self.module.params["new_snapshot_name"]:
          task = self.snap_object.RenameSnapshot(name=self.module.params["new_snapshot_name"])
      else:
          task = self.snap_object.RenameSnapshot(description=self.module.params["new_description"])
      self.result['changed'] = True
      self.result['renamed'] = True
      return task
  \<close>
  A keyword the call leaves out is \<open>None\<close> in the recorded call.
\<close>

definition rename_snapshot :: "'r vendor \<Rightarrow> params \<Rightarrow> 'r self \<Rightarrow> event list \<times> 'r dispatched" where
  "rename_snapshot vnd p s =
     (case snap_object s of
        None \<Rightarrow> ([], Threw ''AttributeError'')
      | Some target \<Rightarrow>
          (let c = (if truthy_str (new_snapshot_name p) \<and> truthy_str (new_description p)
                    then RenameSnapshot target (new_snapshot_name p) (new_description p)
                    else if truthy_str (new_snapshot_name p)
                    then RenameSnapshot target (new_snapshot_name p) None
                    else RenameSnapshot target None (new_description p))
           in case respond vnd c of
                Returned t \<Rightarrow>
                  ([Vendor_call c],
                   Task t (s\<lparr>result := (result s)\<lparr>changed := True, renamed := True\<rparr>\<rparr>))
              | Raised_RestrictedVersion m txt \<Rightarrow> ([Vendor_call c], Threw txt)
              | Raised_Exception txt \<Rightarrow> ([Vendor_call c], Threw txt)))"

text \<open>
  \<^verbatim>\<open>
  def apply_snapshot_op(self):
      if self.module.params["state"] in ["absent", "revert", "rename"] and self.snap_object is None:
          self.module.fail_json(
              msg="Couldn't find any snapshots with specified name: %s on VM: %s" %
                  (self.module.params["snapshot_name"] or self.module.params["snapshot_id"], self.vm_id))
      snapshot_state_function = {
          'present': self.snapshot_vm,
          'rename': self.rename_snapshot,
          'absent': lambda: self.snap_object.RemoveSnapshot_Task(self.module.params.get('remove_children', False)),
          'revert': self.snap_object.RevertToSnapshot_Task,
          'remove_all': self.vm.RemoveAllSnapshots
      }
      try:
          task = snapshot_state_function[self.module.params['state']]()
      except Exception as e:
          self.module.fail_json(msg=to_text(e))
      if not task:
          return
      try:
          _, task_result = RunningTaskMonitor(task).wait_for_completion(vm=self.vm)
      except TaskError as e:
          self.module.fail_json(msg=to_text(e))
      self.result['changed'] = True
      self.result['snapshot_results'] = list_snapshots(self.vm)
  \<close>
  Building the table evaluates \<open>self.snap_object.RevertToSnapshot_Task\<close> for every
  state: with \<open>snap_object\<close> \<open>None\<close> the attribute access raises \<open>AttributeError\<close>,
  outside both \<open>try\<close> blocks.
\<close>

definition selector_text :: "params \<Rightarrow> string" where
  "selector_text p =
     (if truthy_str (snapshot_name p) then the (snapshot_name p)
      else case snapshot_id p of None \<Rightarrow> ''None'' | Some i \<Rightarrow> str_int i)"

definition not_found_msg :: "params \<Rightarrow> 'r self \<Rightarrow> string" where
  "not_found_msg p s =
     ''Couldn'' @ [quote_char] @ ''t find any snapshots with specified name: ''
     @ selector_text p @ '' on VM: '' @ str_opt (vm_id s)"

definition dispatch :: "'r vendor \<Rightarrow> params \<Rightarrow> 'r self \<Rightarrow> snapshot_ref \<Rightarrow> event list \<times> 'r dispatched" where
  "dispatch vnd p s target =
     (case state p of
        Present \<Rightarrow> snapshot_vm vnd p s
      | Rename \<Rightarrow> rename_snapshot vnd p s
      | Absent \<Rightarrow> vendor_task vnd (RemoveSnapshot_Task target (remove_children p)) s
      | Revert \<Rightarrow> vendor_task vnd (RevertToSnapshot_Task target) s
      | Remove_all \<Rightarrow> vendor_task vnd RemoveAllSnapshots s)"

definition apply_snapshot_op :: "'r vendor \<Rightarrow> params \<Rightarrow> 'r self \<Rightarrow> event list \<times> ('r outcome + 'r self)" where
  "apply_snapshot_op vnd p s =
     (if (state p = Absent \<or> state p = Revert \<or> state p = Rename) \<and> snap_object s = None
      then ([], Inl (Fail_json (not_found_msg p s)))
      else case snap_object s of
        None \<Rightarrow> ([], Inl (Uncaught (AttributeError ''RevertToSnapshot_Task'')))
      | Some target \<Rightarrow>
          (case dispatch vnd p s target of
             (ev, Exited out) \<Rightarrow> (ev, Inl out)
           | (ev, Threw txt) \<Rightarrow> (ev, Inl (Fail_json txt))
           | (ev, Task None s') \<Rightarrow> (ev, Inr s')
           | (ev, Task (Some t) s') \<Rightarrow>
               (case wait_for_completion vnd t of
                  Raised_TaskError txt \<Rightarrow> (ev @ [Wait t], Inl (Fail_json txt))
                | Completed \<Rightarrow>
                    (ev @ [Wait t, List_snapshots],
                     Inr (s'\<lparr>result := (result s')\<lparr>changed := True,
                            snapshot_results := Some (list_snapshots vnd)\<rparr>\<rparr>)))))"

text \<open>
  \<open>main\<close> after the parameters are read: the constructor, \<open>apply_snapshot_op\<close>, then
  \<open>module.exit_json(**vm_snapshot.result)\<close>.
\<close>

definition main :: "'r vendor \<Rightarrow> params \<Rightarrow> virtual_machine option \<Rightarrow> vm_lookup \<Rightarrow> event list \<times> 'r outcome" where
  "main vnd p held lookup =
     (case init p held lookup of
        Inl out \<Rightarrow> ([], out)
      | Inr s \<Rightarrow>
          (case apply_snapshot_op vnd p s of
             (ev, Inl out) \<Rightarrow> (ev, out)
           | (ev, Inr s') \<Rightarrow> (ev, Exit_result (result s'))))"

section \<open>The REST client (\<open>_rest.py\<close>)\<close>

text \<open>
  \<open>connection_params\<close> is read with \<open>.get\<close>: a missing key is \<open>None\<close>; a missing
  \<open>port\<close> is \<open>443\<close>. The session is what the code sets of a \<open>requests.Session\<close>:
  \<open>verify\<close> and \<open>proxies\<close>; a fresh session has no proxies. The value the code
  stores in \<open>proxies\<close> is the tuple its dictionary display builds.
\<close>

record connection_params =
  hostname :: "string option"
  username :: "string option"
  password :: "string option"
  port :: "int option"
  validate_certs :: "bool option"
  http_proxy_host :: "string option"
  http_proxy_port :: "int option"
  http_proxy_protocol :: "string option"

record session =
  verify :: "bool option"
  proxies :: "string \<rightharpoonup> string \<times> string \<times> int"

definition new_session :: session where
  "new_session = \<lparr>verify = Some True, proxies = Map.empty\<rparr>"

text \<open>
  The vendor's \<open>create_vsphere_client\<close> is a parameter: it returns a client or \<open>None\<close>,
  or raises \<open>SSLError\<close> or another exception (with the text \<open>to_native\<close> gives).
  \<open>HAS_URLLIB3\<close> is the flag the imports set. The events are the effects outside the
  session object, in order; \<open>Create_client\<close> is the connection attempt.
\<close>

datatype 'c create_response =
    Created "'c option"
  | Raised_SSLError string
  | Raised_other string

record 'c rest_env =
  HAS_URLLIB3 :: bool
  create_vsphere_client :: "string \<Rightarrow> string \<Rightarrow> string \<Rightarrow> session \<Rightarrow> 'c create_response"

datatype rest_event =
    Session_created
  | Warnings_disabled
  | Create_client string string string session

text \<open>
  \<^verbatim>\<open>
  def __validate_required_connection_params(self, hostname, username, password):
      if not hostname:
          raise ApiAccessError(("Hostname parameter is missing. ..."))
      if not username:
          raise ApiAccessError(("Username parameter is missing. ..."))
      if not password:
          raise ApiAccessError(("Password parameter is missing. ..."))
  \<close>
\<close>

definition hostname_missing :: string where
  "hostname_missing =
     ''Hostname parameter is missing. Please specify this parameter in task or ''
     @ ''export environment variable like '' @ [CHR 0x27]
     @ ''export VMWARE_HOST=ESXI_HOSTNAME'' @ [CHR 0x27]"

definition username_missing :: string where
  "username_missing =
     ''Username parameter is missing. Please specify this parameter in task or ''
     @ ''export environment variable like '' @ [CHR 0x27]
     @ ''export VMWARE_USER=ESXI_USERNAME'' @ [CHR 0x27]"

definition password_missing :: string where
  "password_missing =
     ''Password parameter is missing. Please specify this parameter in task or ''
     @ ''export environment variable like '' @ [CHR 0x27]
     @ ''export VMWARE_PASSWORD=ESXI_PASSWORD'' @ [CHR 0x27]"

definition validate_required_connection_params ::
  "string option \<Rightarrow> string option \<Rightarrow> string option \<Rightarrow> exn + unit" where
  "validate_required_connection_params host user pass =
     (if \<not> truthy_str host then Inl (ApiAccessError hostname_missing)
      else if \<not> truthy_str user then Inl (ApiAccessError username_missing)
      else if \<not> truthy_str pass then Inl (ApiAccessError password_missing)
      else Inr ())"

text \<open>
  \<^verbatim>\<open>
  def __configure_session_ssl_context(self, session, validate_certs):
      session.verify = validate_certs
      if not validate_certs:
          if HAS_URLLIB3:
              urllib3.disable_warnings(urllib3.exceptions.InsecureRequestWarning)
  \<close>
\<close>

definition configure_session_ssl_context ::
  "'c rest_env \<Rightarrow> session \<Rightarrow> bool option \<Rightarrow> rest_event list \<times> session" where
  "configure_session_ssl_context env sess certs =
     (if \<not> truthy_bool certs \<and> HAS_URLLIB3 env then [Warnings_disabled] else [],
      sess\<lparr>verify := certs\<rparr>)"

text \<open>
  \<^verbatim>\<open>
  def __configure_session_proxies(self, session, http_proxy_host, http_proxy_port, http_proxy_protocol):
      if all([http_proxy_host, http_proxy_port, http_proxy_protocol]):
          http_proxies = {
              http_proxy_protocol: (
                  "{%s}://{%s}:{%s}" %
                  http_proxy_protocol, http_proxy_host, http_proxy_port
              )
          }
          session.proxies.update(http_proxies)
  \<close>
  \<open>%\<close> binds tighter than the comma: the value is the tuple of
  \<open>"{%s}://{%s}:{%s}" % http_proxy_protocol\<close>, the host and the port, and the format
  is applied to the protocol alone.
\<close>

definition configure_session_proxies ::
  "session \<Rightarrow> string option \<Rightarrow> int option \<Rightarrow> string option \<Rightarrow> exn + session" where
  "configure_session_proxies sess host prt protocol =
     (if truthy_str host \<and> truthy_int prt \<and> truthy_str protocol then
        (case py_format ''{%s}://{%s}:{%s}'' [the protocol] of
           Inl e \<Rightarrow> Inl e
         | Inr url \<Rightarrow>
             Inr (sess\<lparr>proxies := (proxies sess)(the protocol \<mapsto> (url, the host, the prt))\<rparr>))
      else Inr sess)"

text \<open>
  \<^verbatim>\<open>
  def __create_client_connection(self, session, hostname, username, password, port):
      msg = "Failed to connect to vCenter or ESXi API at %s:%s" % (hostname, port)
      try:
          client = create_vsphere_client(server="%s:%s" % (hostname, port),
                                         username=username, password=password, session=session)
      except requests.exceptions.SSLError as e:
          msg += " due to SSL verification failure"
          raise ApiAccessError("%s : %s" % (msg, to_native(e)))
      except Exception as e:
          raise ApiAccessError("%s : %s" % (msg, to_native(e)))
      if client is None:
          raise ApiAccessError("Failed to login to %s" % hostname)
      return client
  \<close>
\<close>

definition create_client_connection ::
  "'c rest_env \<Rightarrow> session \<Rightarrow> string \<Rightarrow> string \<Rightarrow> string \<Rightarrow> int \<Rightarrow> rest_event list \<times> (exn + 'c)" where
  "create_client_connection env sess host user pass prt =
     (let msg = ''Failed to connect to vCenter or ESXi API at '' @ host @ '':'' @ str_int prt;
          server = host @ '':'' @ str_int prt
      in ([Create_client server user pass sess],
          (case create_vsphere_client env server user pass sess of
             Raised_SSLError txt \<Rightarrow>
               Inl (ApiAccessError (msg @ '' due to SSL verification failure'' @ '' : '' @ txt))
           | Raised_other txt \<Rightarrow> Inl (ApiAccessError (msg @ '' : '' @ txt))
           | Created None \<Rightarrow> Inl (ApiAccessError (''Failed to login to '' @ host))
           | Created (Some client) \<Rightarrow> Inr client)))"

text \<open>
  \<^verbatim>\<open>
  def connect_to_api(self, connection_params):
      hostname = connection_params.get('hostname')
      ...
      port = connection_params.get('port', 443)
      ...
      self.__validate_required_connection_params(hostname, username, password)
      session = requests.Session()
      self.__configure_session_ssl_context(session, validate_certs)
      self.__configure_session_proxies(session, http_proxy_host, http_proxy_port, http_proxy_protocol)
      return self.__create_client_connection(session, hostname, username, password, port)
  \<close>
\<close>

definition connect_to_api :: "'c rest_env \<Rightarrow> connection_params \<Rightarrow> rest_event list \<times> (exn + 'c)" where
  "connect_to_api env cp =
     (let prt = (case port cp of None \<Rightarrow> 443 | Some n \<Rightarrow> n) in
      case validate_required_connection_params (hostname cp) (username cp) (password cp) of
        Inl e \<Rightarrow> ([], Inl e)
      | Inr u \<Rightarrow>
          (let (ev, sess) = configure_session_ssl_context env new_session (validate_certs cp) in
           case configure_session_proxies sess (http_proxy_host cp) (http_proxy_port cp)
                  (http_proxy_protocol cp) of
             Inl e \<Rightarrow> (Session_created # ev, Inl e)
           | Inr sess' \<Rightarrow>
               (let (ev', r) = create_client_connection env sess' (the (hostname cp))
                                 (the (username cp)) (the (password cp)) prt
                in (Session_created # ev @ ev', r))))"

section \<open>Example inputs\<close>

text \<open>
  The tree of the specification's end-to-end scenario, a tree with two siblings of one
  name, default parameters for a machine named \<open>vm1\<close>, a machine with a given
  snapshot tree, and a vendor whose \<open>RenameSnapshot\<close> returns no task (it has no result
  in the vendor's interface) while every other call returns task \<open>1\<close>, which completes.
\<close>

definition scenario_tree :: "snapshot_tree list" where
  "scenario_tree =
     [SnapshotTree 3 ''snap1'' 13 [],
      SnapshotTree 4 ''snap2'' 14 [SnapshotTree 5 ''snap3'' 15 []]]"

definition twin_tree :: "snapshot_tree list" where
  "twin_tree = [SnapshotTree 1 ''snap1'' 11 [], SnapshotTree 2 ''snap1'' 12 []]"

definition default_params :: params where
  "default_params =
     \<lparr>state = Present, name = Some ''vm1'', uuid = None, moid = None,
      snapshot_name = None, snapshot_id = None, description = [],
      quiesce = False, memory_dump = False, remove_children = False,
      new_snapshot_name = None, new_description = None\<rparr>"

definition machine_with :: "snapshot_tree list \<Rightarrow> virtual_machine" where
  "machine_with tree =
     \<lparr>snapshot = Some \<lparr>rootSnapshotList = tree\<rparr>,
      capability = \<lparr>memorySnapshotsSupported = True, quiescedSnapshotsSupported = True\<rparr>\<rparr>"

definition plain_vendor :: "string vendor" where
  "plain_vendor =
     \<lparr>respond = (\<lambda>c. case c of RenameSnapshot target n d \<Rightarrow> Returned None
                              | _ \<Rightarrow> Returned (Some 1)),
      wait_for_completion = (\<lambda>t. Completed),
      list_snapshots = ''refreshed''\<rparr>"

text \<open>
  Connection parameters with every required field, a vendor that returns client \<open>7\<close>,
  and one whose connection attempt fails.
\<close>

definition good_cp :: connection_params where
  "good_cp =
     \<lparr>hostname = Some ''vc.example.org'', username = Some ''admin'',
      password = Some ''secret'', port = None, validate_certs = Some True,
      http_proxy_host = None, http_proxy_port = None, http_proxy_protocol = None\<rparr>"

definition up_env :: "nat rest_env" where
  "up_env =
     \<lparr>HAS_URLLIB3 = True,
      create_vsphere_client = (\<lambda>server user pass sess. Created (Some 7))\<rparr>"

definition down_env :: "nat rest_env" where
  "down_env =
     \<lparr>HAS_URLLIB3 = True,
      create_vsphere_client = (\<lambda>server user pass sess. Raised_other ''connection refused'')\<rparr>"

section \<open>Properties of the searches\<close>

lemma all_nodes_ancestors: "map snd (nodes_with_ancestors anc ts) = all_nodes ts"
  by (induction anc ts rule: nodes_with_ancestors.induct) simp_all

lemma outermost_name_pair:
  "outermost_name snapname (anc, t) = (st_name t = snapname \<and> snapname \<notin> st_name ` set anc)"
  by (simp add: outermost_name_def)

lemma outermost_id_pair:
  "outermost_id snapid (anc, t) = (st_id t = snapid \<and> snapid \<notin> st_id ` set anc)"
  by (simp add: outermost_id_def)

lemma shadowed_name:
  "snapname \<in> st_name ` set anc \<Longrightarrow> filter (outermost_name snapname) (nodes_with_ancestors anc ts) = []"
  by (induction anc ts rule: nodes_with_ancestors.induct) (simp_all add: outermost_name_pair)

lemma shadowed_id:
  "snapid \<in> st_id ` set anc \<Longrightarrow> filter (outermost_id snapid) (nodes_with_ancestors anc ts) = []"
  by (induction anc ts rule: nodes_with_ancestors.induct) (simp_all add: outermost_id_pair)

lemma by_name_outermost:
  "snapname \<notin> st_name ` set anc \<Longrightarrow>
   get_snapshots_by_name_recursively ts snapname =
     map snd (filter (outermost_name snapname) (nodes_with_ancestors anc ts))"
proof (induction anc ts rule: nodes_with_ancestors.induct)
  case (1 anc)
  show ?case by simp
next
  case (2 anc i n r cs ts)
  show ?case
  proof (cases "n = snapname")
    case True
    then have "filter (outermost_name snapname)
        (nodes_with_ancestors (anc @ [SnapshotTree i n r cs]) cs) = []"
      by (intro shadowed_name) simp
    with True 2 show ?thesis by (simp add: outermost_name_pair)
  next
    case False
    with 2 show ?thesis by (simp add: outermost_name_pair)
  qed
qed

lemma by_id_outermost:
  "snapid \<notin> st_id ` set anc \<Longrightarrow>
   get_snapshots_by_id_recursively ts snapid =
     map snd (filter (outermost_id snapid) (nodes_with_ancestors anc ts))"
proof (induction anc ts rule: nodes_with_ancestors.induct)
  case (1 anc)
  show ?case by simp
next
  case (2 anc i n r cs ts)
  show ?case
  proof (cases "i = snapid")
    case True
    then have "filter (outermost_id snapid)
        (nodes_with_ancestors (anc @ [SnapshotTree i n r cs]) cs) = []"
      by (intro shadowed_id) simp
    with True 2 show ?thesis by (simp add: outermost_id_pair)
  next
    case False
    with 2 show ?thesis by (simp add: outermost_id_pair)
  qed
qed

lemma by_id_search_by:
  "get_snapshots_by_id_recursively ts snapid = search_by (\<lambda>s. st_id s = snapid) ts"
  by (induction ts snapid rule: get_snapshots_by_id_recursively.induct) simp_all

lemma by_name_search_by:
  "get_snapshots_by_name_recursively ts snapname = search_by (\<lambda>s. st_name s = snapname) ts"
  by (induction ts snapname rule: get_snapshots_by_name_recursively.induct) simp_all

lemma search_by_tested: "search_by matches ts = filter matches (tested_by matches ts)"
  by (induction matches ts rule: tested_by.induct) simp_all

lemma tested_by_cong:
  "(\<forall>s \<in> set (all_nodes ts). P s = Q s) \<Longrightarrow> tested_by P ts = tested_by Q ts"
  by (induction P ts rule: tested_by.induct) auto

lemma search_by_cong:
  "(\<forall>s \<in> set (all_nodes ts). P s = Q s) \<Longrightarrow> search_by P ts = search_by Q ts"
  by (induction P ts rule: search_by.induct) auto

lemma by_name_subset:
  "set (get_snapshots_by_name_recursively ts snapname)
     \<subseteq> {s \<in> set (all_nodes ts). st_name s = snapname}"
  by (induction ts snapname rule: get_snapshots_by_name_recursively.induct) auto

text \<open>
  Claim C1, as the code has it. The name search returns, in pre-order, exactly the nodes
  named \<open>N\<close> that have no proper ancestor named \<open>N\<close>: every node it returns is a node of
  the tree named \<open>N\<close>, later siblings of a match are searched, the children of a match
  are not, and the empty tree gives the empty list.
\<close>

theorem name_search_outermost_matches:
  "get_snapshots_by_name_recursively T N
     = map snd (filter (outermost_name N) (nodes_with_ancestors [] T))
   \<and> set (get_snapshots_by_name_recursively T N) \<subseteq> {s \<in> set (all_nodes T). st_name s = N}
   \<and> get_snapshots_by_name_recursively [] N = []"
  using by_name_outermost [of N "[]" T] by_name_subset [of T N] by simp

text \<open>
  Claim C1 as stated (every node named \<open>N\<close> at any depth is returned) fails: a node
  named \<open>snap1\<close> below a node named \<open>snap1\<close> is in the tree and is not returned.
\<close>

theorem name_search_misses_nested_match:
  "SnapshotTree 2 ''snap1'' 11 []
     \<in> set (all_nodes [SnapshotTree 1 ''snap1'' 10 [SnapshotTree 2 ''snap1'' 11 []]])
   \<and> st_name (SnapshotTree 2 ''snap1'' 11 []) = ''snap1''
   \<and> SnapshotTree 2 ''snap1'' 11 []
     \<notin> set (get_snapshots_by_name_recursively
              [SnapshotTree 1 ''snap1'' 10 [SnapshotTree 2 ''snap1'' 11 []]] ''snap1'')"
  by simp

text \<open>
  Claim C6. The id search and the name search are the same traversal \<open>search_by\<close>, with
  the test on the id in one and on the name in the other. The id search returns every
  node with the id among the nodes the traversal tests, however many there are. Where
  the two tests agree on every node of the tree, the searches test the same nodes in
  the same order and return the same list.
\<close>

theorem id_search_same_traversal:
  "get_snapshots_by_id_recursively T I = search_by (\<lambda>s. st_id s = I) T
   \<and> get_snapshots_by_name_recursively T N = search_by (\<lambda>s. st_name s = N) T
   \<and> get_snapshots_by_id_recursively T I
       = filter (\<lambda>s. st_id s = I) (tested_by (\<lambda>s. st_id s = I) T)
   \<and> ((\<forall>s \<in> set (all_nodes T). (st_id s = I) = (st_name s = N)) \<longrightarrow>
        tested_by (\<lambda>s. st_id s = I) T = tested_by (\<lambda>s. st_name s = N) T
        \<and> get_snapshots_by_id_recursively T I = get_snapshots_by_name_recursively T N)"
proof -
  have a: "get_snapshots_by_id_recursively T I = search_by (\<lambda>s. st_id s = I) T"
    by (rule by_id_search_by)
  have b: "get_snapshots_by_name_recursively T N = search_by (\<lambda>s. st_name s = N) T"
    by (rule by_name_search_by)
  have c: "get_snapshots_by_id_recursively T I
       = filter (\<lambda>s. st_id s = I) (tested_by (\<lambda>s. st_id s = I) T)"
    by (simp only: a search_by_tested)
  have d: "tested_by (\<lambda>s. st_id s = I) T = tested_by (\<lambda>s. st_name s = N) T
        \<and> get_snapshots_by_id_recursively T I = get_snapshots_by_name_recursively T N"
    if h: "\<forall>s \<in> set (all_nodes T). (st_id s = I) = (st_name s = N)"
    using tested_by_cong [OF h] search_by_cong [OF h] a b by simp
  from a b c d show ?thesis by blast
qed

text \<open>
  Witness for C6: a tree in which three nodes carry the id \<open>7\<close> and the name \<open>a\<close>; both
  searches return the two outermost of them.
\<close>

theorem id_search_same_traversal_witness:
  "get_snapshots_by_id_recursively
     [SnapshotTree 7 ''a'' 1 [SnapshotTree 7 ''a'' 2 []],
      SnapshotTree 8 ''b'' 3 [SnapshotTree 7 ''a'' 4 []]] 7
   = [SnapshotTree 7 ''a'' 1 [SnapshotTree 7 ''a'' 2 []], SnapshotTree 7 ''a'' 4 []]
   \<and> get_snapshots_by_name_recursively
     [SnapshotTree 7 ''a'' 1 [SnapshotTree 7 ''a'' 2 []],
      SnapshotTree 8 ''b'' 3 [SnapshotTree 7 ''a'' 4 []]] ''a''
   = [SnapshotTree 7 ''a'' 1 [SnapshotTree 7 ''a'' 2 []], SnapshotTree 7 ''a'' 4 []]
   \<and> tested_by (\<lambda>s. st_id s = 7)
     [SnapshotTree 7 ''a'' 1 [SnapshotTree 7 ''a'' 2 []],
      SnapshotTree 8 ''b'' 3 [SnapshotTree 7 ''a'' 4 []]]
   = tested_by (\<lambda>s. st_name s = ''a'')
     [SnapshotTree 7 ''a'' 1 [SnapshotTree 7 ''a'' 2 []],
      SnapshotTree 8 ''b'' 3 [SnapshotTree 7 ''a'' 4 []]]"
  using id_search_same_traversal
    [of "[SnapshotTree 7 ''a'' 1 [SnapshotTree 7 ''a'' 2 []],
          SnapshotTree 8 ''b'' 3 [SnapshotTree 7 ''a'' 4 []]]" 7 "''a''"]
  by simp

section \<open>Properties of the snapshot module\<close>

lemma str_opt_simps: "str_opt None = ''None''" "str_opt (Some t) = t"
  by (simp_all add: str_opt_def)

lemma truthy_str_simps: "truthy_str None = False" "truthy_str (Some t) = (t \<noteq> [])"
  by (simp_all add: truthy_str_def)

lemma truthy_int_simps: "truthy_int None = False" "truthy_int (Some i) = (i \<noteq> 0)"
  by (simp_all add: truthy_int_def)

lemma main_depends_on_resolve:
  "resolve p m = resolve p m' \<Longrightarrow> main vnd p (Some m) lookup = main vnd p (Some m') lookup"
  by (simp add: main_def init_def)

lemma resolve_found:
  "snapshot m = Some info \<Longrightarrow> get_snapshots_recursively p info = Some matches \<Longrightarrow>
   resolve p m = Inr (if length matches = 1 then Some (st_snapshot (hd matches)) else None)"
  by (cases matches) (simp_all add: resolve_def disambiguate_def)

text \<open>
  Claim C2. When the search returned the list \<open>matches\<close>, the resolved snapshot is the
  snapshot of the single match when there is exactly one, and none otherwise; a target
  is resolved exactly when the list has length one. A search with no match and a
  search with several give the same resolution, and the whole invocation ends the
  same way for both.
\<close>

theorem exactly_one_match_resolves:
  assumes "snapshot m = Some info" and "get_snapshots_recursively p info = Some matches"
    and "snapshot m' = Some info'" and "get_snapshots_recursively p info' = Some matches'"
  shows "resolve p m = Inr (if length matches = 1 then Some (st_snapshot (hd matches)) else None)
     \<and> ((\<exists>target. resolve p m = Inr (Some target)) = (length matches = 1))
     \<and> (length matches \<noteq> 1 \<and> length matches' \<noteq> 1 \<longrightarrow>
          resolve p m' = resolve p m
          \<and> main vnd p (Some m') lookup = main vnd p (Some m) lookup)"
proof -
  note r = resolve_found [OF assms(1,2)]
  note r' = resolve_found [OF assms(3,4)]
  have e: "(\<exists>target. resolve p m = Inr (Some target)) = (length matches = 1)"
    by (simp add: r)
  have i: "resolve p m' = resolve p m \<and> main vnd p (Some m') lookup = main vnd p (Some m) lookup"
    if "length matches \<noteq> 1 \<and> length matches' \<noteq> 1"
  proof -
    from that r r' have eq: "resolve p m' = resolve p m" by simp
    from eq main_depends_on_resolve [OF eq] show ?thesis
      by (intro conjI)
  qed
  from r e i show ?thesis by (intro conjI impI) simp_all
qed

text \<open>
  Witness for C2: the specification's scenario of two siblings named \<open>snap1\<close>, with
  state \<open>absent\<close>, against a machine whose tree is empty: no target is resolved, and
  the invocation ends as it does when nothing matches.
\<close>

theorem exactly_one_match_resolves_witness:
  "resolve (default_params\<lparr>state := Absent, snapshot_name := Some ''snap1''\<rparr>)
     (machine_with twin_tree) = Inr None
   \<and> main plain_vendor (default_params\<lparr>state := Absent, snapshot_name := Some ''snap1''\<rparr>)
        (Some (machine_with [])) (Lookup_returned [Some (machine_with twin_tree)])
     = main plain_vendor (default_params\<lparr>state := Absent, snapshot_name := Some ''snap1''\<rparr>)
        (Some (machine_with twin_tree)) (Lookup_returned [Some (machine_with twin_tree)])"
  using exactly_one_match_resolves
    [of "machine_with twin_tree" "\<lparr>rootSnapshotList = twin_tree\<rparr>"
        "default_params\<lparr>state := Absent, snapshot_name := Some ''snap1''\<rparr>" twin_tree
        "machine_with []" "\<lparr>rootSnapshotList = []\<rparr>" "[]"
        plain_vendor "Lookup_returned [Some (machine_with twin_tree)]"]
  by (simp add: machine_with_def get_snapshots_recursively_def default_params_def twin_tree_def
      truthy_str_simps)

text \<open>
  Claim C3, as the code has it. For the three states \<open>rename\<close>, \<open>absent\<close> and
  \<open>revert\<close>, an invocation whose resolved snapshot is none fails with the not-found
  message before the dispatch table is built and before any vendor call. The guard does
  not name \<open>present\<close>.
\<close>

theorem missing_target_fails_before_dispatch:
  "state p = Rename \<or> state p = Absent \<or> state p = Revert \<Longrightarrow> snap_object s = None \<Longrightarrow>
     apply_snapshot_op vnd p s = ([], Inl (Fail_json (not_found_msg p s)))"
  by (auto simp: apply_snapshot_op_def)

text \<open>Witness for C3: \<open>revert\<close> by id \<open>5\<close> with nothing resolved.\<close>

theorem missing_target_fails_before_dispatch_witness:
  "apply_snapshot_op plain_vendor (default_params\<lparr>state := Revert, snapshot_id := Some 5\<rparr>)
     \<lparr>vm = machine_with [], vm_id = Some ''vm1'', snap_object = None,
       result = \<lparr>changed = False, renamed = False, snapshot_results = None\<rparr>\<rparr>
   = ([], Inl (Fail_json (''Couldn'' @ [quote_char]
             @ ''t find any snapshots with specified name: 5 on VM: vm1'')))"
  using missing_target_fails_before_dispatch
    [of "default_params\<lparr>state := Revert, snapshot_id := Some 5\<rparr>"
        "\<lparr>vm = machine_with [], vm_id = Some ''vm1'', snap_object = None,
          result = \<lparr>changed = False, renamed = False, snapshot_results = None\<rparr>\<rparr>"
        plain_vendor]
  by (simp add: default_params_def not_found_msg_def selector_text_def truthy_str_simps
      str_opt_simps str_int_def digit_char_def)

text \<open>
  Claim C3 as stated fails for \<open>present\<close>: with nothing resolved the invocation does
  not end in the not-found failure.
\<close>

theorem present_without_target_not_reported_missing:
  "apply_snapshot_op plain_vendor default_params
     \<lparr>vm = machine_with [], vm_id = Some ''vm1'', snap_object = None,
       result = \<lparr>changed = False, renamed = False, snapshot_results = None\<rparr>\<rparr>
     = ([], Inl (Uncaught (AttributeError ''RevertToSnapshot_Task'')))
   \<and> state default_params = Present"
  by (simp add: apply_snapshot_op_def default_params_def)

text \<open>
  Claim C4 at a failing input: state \<open>rename\<close> with an id selector and no name, on a
  machine that has snapshots. No search is made, \<open>get_snapshots_recursively\<close> returns
  \<open>None\<close>, and \<open>len\<close> of it raises \<open>TypeError\<close>: resolution is not total.
\<close>

theorem resolution_raises_without_search:
  "get_snapshots_recursively (default_params\<lparr>state := Rename, snapshot_id := Some 5\<rparr>)
     \<lparr>rootSnapshotList = scenario_tree\<rparr> = None
   \<and> resolve (default_params\<lparr>state := Rename, snapshot_id := Some 5\<rparr>)
     (machine_with scenario_tree) = Inl (TypeError no_len)
   \<and> main plain_vendor (default_params\<lparr>state := Rename, snapshot_id := Some 5\<rparr>)
     (Some (machine_with scenario_tree)) (Lookup_returned [Some (machine_with scenario_tree)])
     = ([], Uncaught (TypeError no_len))"
  by (simp add: main_def init_def resolve_def disambiguate_def get_snapshots_recursively_def
      default_params_def machine_with_def truthy_str_simps truthy_int_simps)

text \<open>
  Claim C5. The constructor resolves the target on the machine \<open>self.vm\<close> holds before
  the lookup: with no machine held it raises \<open>AttributeError\<close> whatever the lookup
  answers; when it succeeds, the resolved snapshot is the resolution on the held
  machine, \<open>self.vm\<close> is afterwards the first machine of the lookup, and the resolved
  snapshot does not depend on the lookup's answer.
\<close>

theorem resolution_precedes_vm_lookup:
  "init p None lookup = Inl (Uncaught (AttributeError ''vm''))
   \<and> (init p held lookup = Inr s \<longrightarrow>
        (\<exists>m. held = Some m \<and> resolve p m = Inr (snap_object s))
        \<and> (\<exists>others. lookup = Lookup_returned (Some (vm s) # others)))
   \<and> (init p held lookup = Inr s \<and> init p held lookup' = Inr s' \<longrightarrow>
        snap_object s' = snap_object s)"
  by (auto simp: init_def Let_def
      split: option.splits sum.splits vm_lookup.splits list.splits if_splits)

text \<open>
  Witness for C5: the held machine has the scenario's tree, the lookup returns a machine
  without snapshots; the target is the one found in the held machine's tree.
\<close>

theorem resolution_precedes_vm_lookup_witness:
  "init (default_params\<lparr>state := Absent, snapshot_name := Some ''snap3''\<rparr>)
     (Some (machine_with scenario_tree)) (Lookup_returned [Some (machine_with [])])
   = Inr \<lparr>vm = machine_with [], vm_id = Some ''vm1'', snap_object = Some 15,
          result = \<lparr>changed = False, renamed = False,
                     snapshot_results = None :: string option\<rparr>\<rparr>
   \<and> resolve (default_params\<lparr>state := Absent, snapshot_name := Some ''snap3''\<rparr>)
        (machine_with []) = Inr None"
  using resolution_precedes_vm_lookup
    [of "default_params\<lparr>state := Absent, snapshot_name := Some ''snap3''\<rparr>"
        "Lookup_returned [Some (machine_with [])]" "Some (machine_with scenario_tree)"
        "\<lparr>vm = machine_with [], vm_id = Some ''vm1'', snap_object = Some 15,
          result = \<lparr>changed = False, renamed = False,
                     snapshot_results = None :: string option\<rparr>\<rparr>"
        "Lookup_returned [Some (machine_with [])]"]
  by (simp add: init_def resolve_def disambiguate_def get_snapshots_recursively_def
      default_params_def machine_with_def scenario_tree_def truthy_str_simps py_or_def)


text \<open>
  Claim C7. With state \<open>present\<close> and a resolved snapshot, the operation ends in
  \<open>exit_json\<close> with \<open>changed=False\<close> and the message that the name already exists,
  and the list of vendor calls is empty: no snapshot is created. So does the whole
  invocation when the constructor built that module object.
\<close>

theorem present_existing_snapshot_is_noop:
  "state p = Present \<Longrightarrow> snap_object s = Some target \<Longrightarrow>
     apply_snapshot_op vnd p s
       = ([], Inl (Exit_msg False
                (''Snapshot named ['' @ str_opt (snapshot_name p) @ ''] already exists'')))
     \<and> (init p held lookup = Inr s \<longrightarrow>
          main vnd p held lookup
            = ([], Exit_msg False
                (''Snapshot named ['' @ str_opt (snapshot_name p) @ ''] already exists'')))"
  by (simp add: main_def apply_snapshot_op_def dispatch_def snapshot_vm_def)

text \<open>
  Witness for C7: \<open>present\<close> for the name \<open>snap3\<close>, which the scenario's tree holds once.
\<close>

theorem present_existing_snapshot_is_noop_witness:
  "main plain_vendor (default_params\<lparr>snapshot_name := Some ''snap3''\<rparr>)
     (Some (machine_with scenario_tree)) (Lookup_returned [Some (machine_with scenario_tree)])
   = ([], Exit_msg False ''Snapshot named [snap3] already exists'')"
  using present_existing_snapshot_is_noop
    [of "default_params\<lparr>snapshot_name := Some ''snap3''\<rparr>"
        "\<lparr>vm = machine_with scenario_tree, vm_id = Some ''vm1'', snap_object = Some 15,
          result = \<lparr>changed = False, renamed = False,
                     snapshot_results = None :: string option\<rparr>\<rparr>"
        15 plain_vendor "Some (machine_with scenario_tree)"
        "Lookup_returned [Some (machine_with scenario_tree)]"]
  by (simp add: init_def resolve_def disambiguate_def get_snapshots_recursively_def
      default_params_def machine_with_def scenario_tree_def truthy_str_simps py_or_def
      str_opt_simps)














section \<open>Properties of the REST client\<close>

lemma format_one_argument:
  "py_format ''{%s}://{%s}:{%s}'' [a] = Inl (TypeError ''not enough arguments for format string'')"
  by (simp add: prepend_def)

lemma missing_distinct: "distinct [hostname_missing, username_missing, password_missing]"
  by (simp add: hostname_missing_def username_missing_def password_missing_def)

text \<open>
  Claim C9, as the code has it. When the hostname, the username or the password is
  empty, \<open>connect_to_api\<close> raises \<open>ApiAccessError\<close> with no event before it (no session,
  no connection attempt); the message is that of the first empty field in the order
  hostname, username, password, and the three messages differ.
\<close>

theorem missing_required_param_raises_first:
  assumes "\<not> truthy_str (hostname cp) \<or> \<not> truthy_str (username cp) \<or> \<not> truthy_str (password cp)"
  shows "connect_to_api env cp
     = ([], Inl (ApiAccessError
          (if \<not> truthy_str (hostname cp) then hostname_missing
           else if \<not> truthy_str (username cp) then username_missing
           else password_missing)))
   \<and> distinct [hostname_missing, username_missing, password_missing]"
proof (intro conjI)
  from assms show "connect_to_api env cp
     = ([], Inl (ApiAccessError
          (if \<not> truthy_str (hostname cp) then hostname_missing
           else if \<not> truthy_str (username cp) then username_missing
           else password_missing)))"
    by (auto simp: connect_to_api_def validate_required_connection_params_def)
  show "distinct [hostname_missing, username_missing, password_missing]"
    by (rule missing_distinct)
qed

text \<open>
  Witness for C9: a missing username, and an empty password.
\<close>

theorem missing_required_param_raises_first_witness:
  "connect_to_api up_env (good_cp\<lparr>username := None\<rparr>) = ([], Inl (ApiAccessError username_missing))
   \<and> connect_to_api up_env (good_cp\<lparr>password := Some []\<rparr>) = ([], Inl (ApiAccessError password_missing))"
  using missing_required_param_raises_first [of "good_cp\<lparr>username := None\<rparr>" up_env]
    missing_required_param_raises_first [of "good_cp\<lparr>password := Some []\<rparr>" up_env]
  by (simp add: good_cp_def truthy_str_simps)

text \<open>
  Claim C9 as stated fails: the error for a missing hostname is an \<open>ApiAccessError\<close>,
  the kind a failed connection attempt raises too.
\<close>

theorem missing_hostname_is_api_access_error:
  "connect_to_api down_env (good_cp\<lparr>hostname := None\<rparr>) = ([], Inl (ApiAccessError hostname_missing))
   \<and> snd (connect_to_api down_env good_cp)
     = Inl (ApiAccessError
         ''Failed to connect to vCenter or ESXi API at vc.example.org:443 : connection refused'')"
  by (simp add: connect_to_api_def validate_required_connection_params_def good_cp_def
      truthy_str_simps truthy_int_simps configure_session_ssl_context_def
      configure_session_proxies_def create_client_connection_def down_env_def
      str_int_def digit_char_def truthy_bool_def)

lemma proxies_format_raises:
  "truthy_str host \<Longrightarrow> truthy_int prt \<Longrightarrow> truthy_str protocol \<Longrightarrow>
   configure_session_proxies sess host prt protocol
     = Inl (TypeError ''not enough arguments for format string'')"
  by (simp add: configure_session_proxies_def prepend_def)

lemma proxies_unchanged:
  "\<not> (truthy_str host \<and> truthy_int prt \<and> truthy_str protocol) \<Longrightarrow>
   configure_session_proxies sess host prt protocol = Inr sess"
  unfolding configure_session_proxies_def by (simp only: if_False)

text \<open>
  Claim C10 at a failing input: with host, port and protocol of the proxy supplied, the
  format is applied to the protocol alone and raises \<open>TypeError\<close>; the session's proxies
  are never set and no connection is attempted.
\<close>

theorem proxy_configuration_raises:
  "connect_to_api up_env
     (good_cp\<lparr>http_proxy_host := Some ''proxy'', http_proxy_port := Some 3128,
              http_proxy_protocol := Some ''http''\<rparr>)
   = ([Session_created], Inl (TypeError ''not enough arguments for format string''))"
  by (simp add: connect_to_api_def validate_required_connection_params_def good_cp_def
      truthy_str_simps truthy_int_simps configure_session_ssl_context_def
      proxies_format_raises truthy_bool_def)

end
